theory Spec2Isabelle
  imports Main "HOL-Library.Sublist"
begin

section \<open>Errors and effects\<close>

text \<open>
  A Go \<^verbatim>\<open>error\<close> is used by this program only through the nil test and through
  \<^verbatim>\<open>Error()\<close>, so an error is modelled by its message and \<^verbatim>\<open>nil\<close> by \<open>None\<close>.
  Strings are byte lists, as Go's are.

  An operation handed to the circuit breaker or to the retry driver is a Go closure:
  it returns an error or nil and may change the world around it. It is modelled as a
  state transformer over an environment \<open>'e\<close>; an invocation of the closure is an
  application of the transformer.
\<close>

type_synonym error = string

type_synonym 'e operation = "'e \<Rightarrow> error option \<times> 'e"

subsection \<open>Formatting of \<^verbatim>\<open>%d\<close>\<close>

fun digits10 :: "nat \<Rightarrow> string" where
  "digits10 n = (if n < 10 then [char_of (48 + n)] else digits10 (n div 10) @ [char_of (48 + n mod 10)])"

declare digits10.simps [simp del]

definition itoa :: "int \<Rightarrow> string" where
  "itoa i = (if i < 0 then CHR ''-'' # digits10 (nat (- i)) else digits10 (nat i))"

section \<open>The circuit breaker (reliability/circuit_breaker.go)\<close>

datatype State = StateClosed | StateHalfOpen | StateOpen

text \<open>
  Times are readings of the monotonic clock in nanoseconds. \<open>lastFailTime = None\<close> is
  the zero \<^verbatim>\<open>time.Time{}\<close>. The observer \<^verbatim>\<open>onStateChange\<close> is started in a goroutine of
  its own at every state change; the model records whether one is installed and the
  list of transitions it was started with.
\<close>

record CircuitBreaker =
  name :: string
  maxFailures :: int
  resetTimeout :: int
  state :: State
  failures :: int
  lastFailTime :: "int option"
  onStateChange :: bool
  notified :: "(State \<times> State) list"

record CircuitBreakerConfig =
  Name :: string
  MaxFailures :: int
  ResetTimeout :: int
  OnStateChange :: bool

definition Second :: int where
  "Second = 1000000000"

definition Millisecond :: int where
  "Millisecond = 1000000"

definition NewCircuitBreaker :: "CircuitBreakerConfig \<Rightarrow> CircuitBreaker" where
  "NewCircuitBreaker config =
     \<lparr> name = Name config,
       maxFailures = (if MaxFailures config \<le> 0 then 5 else MaxFailures config),
       resetTimeout = (if ResetTimeout config \<le> 0 then 60 * Second else ResetTimeout config),
       state = StateClosed,
       failures = 0,
       lastFailTime = None,
       onStateChange = OnStateChange config,
       notified = [] \<rparr>"

text \<open>
  \<^verbatim>\<open>time.Since(t)\<close>: the difference of two clock readings; for the zero time the
  subtraction saturates at the largest duration.
\<close>

definition Since :: "int \<Rightarrow> int option \<Rightarrow> int" where
  "Since now t = (case t of None \<Rightarrow> 2 ^ 63 - 1 | Some t0 \<Rightarrow> now - t0)"

definition allowRequest :: "int \<Rightarrow> CircuitBreaker \<Rightarrow> bool" where
  "allowRequest now cb =
     (case state cb of
        StateClosed \<Rightarrow> True
      | StateOpen \<Rightarrow> Since now (lastFailTime cb) \<ge> resetTimeout cb
      | StateHalfOpen \<Rightarrow> True)"

definition setState :: "State \<Rightarrow> CircuitBreaker \<Rightarrow> CircuitBreaker" where
  "setState newState cb =
     (if state cb \<noteq> newState
      then cb\<lparr> state := newState,
               notified := (if onStateChange cb then notified cb @ [(state cb, newState)]
                            else notified cb) \<rparr>
      else cb)"

definition onSuccess :: "int \<Rightarrow> CircuitBreaker \<Rightarrow> CircuitBreaker" where
  "onSuccess now cb =
     (let cb1 = cb\<lparr> failures := 0 \<rparr> in
      case state cb1 of
        StateClosed \<Rightarrow> cb1
      | StateOpen \<Rightarrow>
          if Since now (lastFailTime cb1) \<ge> resetTimeout cb1 then setState StateHalfOpen cb1
          else cb1
      | StateHalfOpen \<Rightarrow> setState StateClosed cb1)"

definition onFailure :: "int \<Rightarrow> CircuitBreaker \<Rightarrow> CircuitBreaker" where
  "onFailure now cb =
     (let cb1 = cb\<lparr> failures := failures cb + 1, lastFailTime := Some now \<rparr> in
      case state cb1 of
        StateClosed \<Rightarrow> if failures cb1 \<ge> maxFailures cb1 then setState StateOpen cb1 else cb1
      | StateHalfOpen \<Rightarrow> setState StateOpen cb1
      | StateOpen \<Rightarrow> cb1)"

definition recordResult :: "int \<Rightarrow> bool \<Rightarrow> CircuitBreaker \<Rightarrow> CircuitBreaker" where
  "recordResult now success cb = (if success then onSuccess now cb else onFailure now cb)"

text \<open>
  \<^verbatim>\<open>Execute\<close> reads the clock twice: in \<^verbatim>\<open>allowRequest\<close> before the operation runs and in
  \<^verbatim>\<open>recordResult\<close> after it has returned. \<open>clock\<close> reads the time off the environment.
  The result is the returned error, the breaker after the call, and the environment.
\<close>

definition Execute ::
  "('e \<Rightarrow> int) \<Rightarrow> CircuitBreaker \<Rightarrow> 'e operation \<Rightarrow> 'e \<Rightarrow> error option \<times> CircuitBreaker \<times> 'e" where
  "Execute clock cb fn e =
     (if \<not> allowRequest (clock e) cb then (Some ''circuit breaker is open'', cb, e)
      else case fn e of (err, e') \<Rightarrow> (err, recordResult (clock e') (err = None) cb, e'))"

definition Reset :: "CircuitBreaker \<Rightarrow> CircuitBreaker" where
  "Reset cb = setState StateClosed (cb\<lparr> failures := 0, lastFailTime := None \<rparr>)"

definition IsOpen :: "CircuitBreaker \<Rightarrow> bool" where
  "IsOpen cb = (state cb = StateOpen)"

definition IsHalfOpen :: "CircuitBreaker \<Rightarrow> bool" where
  "IsHalfOpen cb = (state cb = StateHalfOpen)"

definition IsClosed :: "CircuitBreaker \<Rightarrow> bool" where
  "IsClosed cb = (state cb = StateClosed)"

text \<open>
  A run of consecutive \<^verbatim>\<open>Execute\<close> calls on one breaker, one call per operation of the
  list, each call starting from the breaker and the environment the previous one left.
\<close>

fun ExecuteAll ::
  "('e \<Rightarrow> int) \<Rightarrow> CircuitBreaker \<Rightarrow> 'e operation list \<Rightarrow> 'e \<Rightarrow> CircuitBreaker \<times> 'e" where
  "ExecuteAll clock cb [] e = (cb, e)"
| "ExecuteAll clock cb (fn # fns) e =
     (case Execute clock cb fn e of (err, cb', e') \<Rightarrow> ExecuteAll clock cb' fns e')"

text \<open>The environment after the operations of a list have been invoked one after another.\<close>

fun invokeAll :: "'e operation list \<Rightarrow> 'e \<Rightarrow> 'e" where
  "invokeAll [] e = e"
| "invokeAll (fn # fns) e = invokeAll fns (snd (fn e))"

section \<open>The retry driver (reliability/retry.go)\<close>

datatype BackoffStrategy = BackoffStrategyLinear | BackoffStrategyExponential | BackoffStrategyFixed

text \<open>
  The configuration as \<^verbatim>\<open>Do\<close> reads it. \<^verbatim>\<open>Multiplier\<close> is a \<^verbatim>\<open>float64\<close> and enters only
  the length of a delay; \<^verbatim>\<open>RetryableErrors\<close> is read only through the \<^verbatim>\<open>ShouldRetry\<close>
  closure that \<^verbatim>\<open>WithRetryableErrors\<close> builds from it.
\<close>

record RetryConfig =
  MaxAttempts :: int
  InitialDelay :: int
  MaxDelay :: int
  Strategy :: BackoffStrategy
  ShouldRetry :: "error \<Rightarrow> bool"

text \<open>
  \<^verbatim>\<open>fmt.Errorf("max retry attempts (%d) exceeded, last error: %w", MaxAttempts, lastErr)\<close>;
  a nil \<^verbatim>\<open>lastErr\<close> is printed by \<^verbatim>\<open>%w\<close> as \<^verbatim>\<open>%!w(<nil>)\<close>.
\<close>

definition maxAttemptsError :: "RetryConfig \<Rightarrow> error option \<Rightarrow> error" where
  "maxAttemptsError cfg lastErr =
     ''max retry attempts ('' @ itoa (MaxAttempts cfg) @ '') exceeded, last error: '' @
     (case lastErr of None \<Rightarrow> ''%!w(<nil>)'' | Some m \<Rightarrow> m)"

text \<open>
  The loop of \<^verbatim>\<open>Do\<close>. Before every attempt but the first the driver computes a delay,
  adds jitter and blocks in \<^verbatim>\<open>select\<close> on the timer and on \<^verbatim>\<open>ctx.Done()\<close>. The length of
  the delay (float arithmetic and a random number) only decides how long the \<^verbatim>\<open>select\<close>
  blocks; \<open>wait attempt\<close> stands for the whole step and returns \<open>None\<close> when the timer
  fired and the message of \<^verbatim>\<open>ctx.Err()\<close> when the context was done first.
\<close>

function Do_loop ::
  "RetryConfig \<Rightarrow> (int \<Rightarrow> 'e operation) \<Rightarrow> 'e operation \<Rightarrow> int \<Rightarrow> error option \<Rightarrow> 'e
     \<Rightarrow> error option \<times> 'e" where
  "Do_loop cfg wait fn attempt lastErr e =
     (if attempt < MaxAttempts cfg then
        (case (if attempt > 0 then wait attempt e else (None, e)) of
           (Some cause, e1) \<Rightarrow> (Some (''retry cancelled: '' @ cause), e1)
         | (None, e1) \<Rightarrow>
             (case fn e1 of
                (None, e2) \<Rightarrow> (None, e2)
              | (Some err, e2) \<Rightarrow>
                  if \<not> ShouldRetry cfg err then (Some (maxAttemptsError cfg (Some err)), e2)
                  else if attempt = MaxAttempts cfg - 1
                    then (Some (maxAttemptsError cfg (Some err)), e2)
                  else Do_loop cfg wait fn (attempt + 1) (Some err) e2))
      else (Some (maxAttemptsError cfg lastErr), e))"
  by pat_completeness auto
termination
  by (relation "measure (\<lambda>(cfg, wait, fn, attempt, lastErr, e). nat (MaxAttempts cfg - attempt))") auto

declare Do_loop.simps [simp del]

definition Do :: "RetryConfig \<Rightarrow> (int \<Rightarrow> 'e operation) \<Rightarrow> 'e operation \<Rightarrow> 'e \<Rightarrow> error option \<times> 'e" where
  "Do cfg wait fn e = Do_loop cfg wait fn 0 None e"

subsection \<open>The transient-error predicate\<close>

text \<open>
  \<^verbatim>\<open>toLower\<close> maps the runes \<^verbatim>\<open>A\<close> to \<^verbatim>\<open>Z\<close> to lower case. On valid UTF-8 that is the
  map on bytes below, as no byte of a multi-byte sequence lies in that range.
\<close>

definition toLower :: "string \<Rightarrow> string" where
  "toLower s = map (\<lambda>c. if (65::nat) \<le> of_char c \<and> of_char c \<le> (90::nat)
                    then char_of (of_char c + (32::nat)) else c) s"

definition contains :: "string \<Rightarrow> string \<Rightarrow> bool" where
  "contains s substr =
     (length s \<ge> length substr \<and>
      (s = substr \<or> length substr = 0 \<or>
       (length s > length substr \<and>
        (take (length substr) s = substr \<or>
         drop (length s - length substr) s = substr \<or>
         (let sLower = toLower s; substrLower = toLower substr in
          list_ex (\<lambda>i. take (length substrLower) (drop i sLower) = substrLower)
            [1 ..< Suc (length sLower - length substrLower)])))))"

definition transientPatterns :: "string list" where
  "transientPatterns =
     [''timeout'', ''connection refused'', ''temporary failure'', ''rate limited'',
      ''service unavailable'', ''network is unreachable'', ''no route to host'',
      ''connection reset'', ''connection timed out'', ''deadline exceeded'',
      ''resource temporarily unavailable'']"

definition IsTransientError :: "error \<Rightarrow> bool" where
  "IsTransientError errStr = list_ex (\<lambda>pattern. contains errStr pattern) transientPatterns"

section \<open>String functions of the Go library used by the probe\<close>

text \<open>
  The UTF-8 encodings of the runes that \<^verbatim>\<open>unicode.IsSpace\<close> accepts: the six ASCII
  spaces, U+0085, U+00A0, U+1680, U+2000 to U+200A, U+2028, U+2029, U+202F, U+205F, U+3000.
\<close>

definition spaceRunes :: "string list" where
  "spaceRunes =
     [[CHR 0x09], [CHR 0x0A], [CHR 0x0B], [CHR 0x0C], [CHR 0x0D], [CHR 0x20],
      [CHR 0xC2, CHR 0x85], [CHR 0xC2, CHR 0xA0], [CHR 0xE1, CHR 0x9A, CHR 0x80],
      [CHR 0xE2, CHR 0x80, CHR 0x80], [CHR 0xE2, CHR 0x80, CHR 0x81],
      [CHR 0xE2, CHR 0x80, CHR 0x82], [CHR 0xE2, CHR 0x80, CHR 0x83],
      [CHR 0xE2, CHR 0x80, CHR 0x84], [CHR 0xE2, CHR 0x80, CHR 0x85],
      [CHR 0xE2, CHR 0x80, CHR 0x86], [CHR 0xE2, CHR 0x80, CHR 0x87],
      [CHR 0xE2, CHR 0x80, CHR 0x88], [CHR 0xE2, CHR 0x80, CHR 0x89],
      [CHR 0xE2, CHR 0x80, CHR 0x8A], [CHR 0xE2, CHR 0x80, CHR 0xA8],
      [CHR 0xE2, CHR 0x80, CHR 0xA9], [CHR 0xE2, CHR 0x80, CHR 0xAF],
      [CHR 0xE2, CHR 0x81, CHR 0x9F], [CHR 0xE3, CHR 0x80, CHR 0x80]]"

fun leadingSpace :: "string list \<Rightarrow> string \<Rightarrow> nat" where
  "leadingSpace [] s = 0"
| "leadingSpace (r # rs) s = (if r \<noteq> [] \<and> prefix r s then length r else leadingSpace rs s)"

fun trailingSpace :: "string list \<Rightarrow> string \<Rightarrow> nat" where
  "trailingSpace [] s = 0"
| "trailingSpace (r # rs) s = (if r \<noteq> [] \<and> suffix r s then length r else trailingSpace rs s)"

function TrimLeftSpace :: "string \<Rightarrow> string" where
  "TrimLeftSpace s =
     (if leadingSpace spaceRunes s = 0 then s else TrimLeftSpace (drop (leadingSpace spaceRunes s) s))"
  by pat_completeness auto
termination
proof (relation "measure length")
  show "wf (measure length)" by simp
next
  fix s :: string
  assume pos: "leadingSpace spaceRunes s \<noteq> 0"
  have "leadingSpace rs s \<le> length s" for rs
    by (induction rs) (auto dest: prefix_length_le)
  then have "leadingSpace spaceRunes s \<le> length s" .
  with pos show "(drop (leadingSpace spaceRunes s) s, s) \<in> measure length" by simp
qed

function TrimRightSpace :: "string \<Rightarrow> string" where
  "TrimRightSpace s =
     (if trailingSpace spaceRunes s = 0 then s
      else TrimRightSpace (take (length s - trailingSpace spaceRunes s) s))"
  by pat_completeness auto
termination
proof (relation "measure length")
  show "wf (measure length)" by simp
next
  fix s :: string
  assume pos: "trailingSpace spaceRunes s \<noteq> 0"
  have "trailingSpace rs s \<le> length s" for rs
    by (induction rs) (auto dest: suffix_length_le)
  then have "trailingSpace spaceRunes s \<le> length s" .
  with pos show "(take (length s - trailingSpace spaceRunes s) s, s) \<in> measure length" by simp
qed

declare TrimLeftSpace.simps [simp del] TrimRightSpace.simps [simp del]

definition TrimSpace :: "string \<Rightarrow> string" where
  "TrimSpace s = TrimRightSpace (TrimLeftSpace s)"

text \<open>
  \<^verbatim>\<open>strings.Split(s, sep)\<close> for a separator of one byte: the pieces of \<open>s\<close> between the
  occurrences of the separator, of which there is always at least one (the first case
  below never arises); and \<^verbatim>\<open>strings.Join\<close>.
\<close>

fun Split :: "string \<Rightarrow> char \<Rightarrow> string list" where
  "Split [] sep = [[]]"
| "Split (c # cs) sep =
     (case Split cs sep of
        [] \<Rightarrow> [[c]]
      | fld # flds \<Rightarrow> if c = sep then [] # fld # flds else (c # fld) # flds)"

fun Join :: "string list \<Rightarrow> string \<Rightarrow> string" where
  "Join [] sep = []"
| "Join [a] sep = a"
| "Join (a # b # rest) sep = a @ sep @ Join (b # rest) sep"

text \<open>
  \<^verbatim>\<open>bufio.Scanner\<close> with the default split function \<^verbatim>\<open>ScanLines\<close>, at its first \<^verbatim>\<open>Scan\<close>:
  the token is the text before the first newline, without a trailing carriage return;
  the whole input when it has no newline. The scanner's buffer holds at most
  \<^verbatim>\<open>MaxScanTokenSize\<close> bytes: when they hold no newline, \<^verbatim>\<open>Scan\<close> returns false and
  \<^verbatim>\<open>Err\<close> is \<^verbatim>\<open>ErrTooLong\<close>. On empty input \<^verbatim>\<open>Scan\<close> returns false and \<^verbatim>\<open>Err\<close> is nil.
\<close>

datatype scanned = Token string | NoToken "error option"

definition MaxScanTokenSize :: nat where
  "MaxScanTokenSize = 64 * 1024"

definition dropCR :: "string \<Rightarrow> string" where
  "dropCR s = (if s \<noteq> [] \<and> last s = CHR 0x0D then butlast s else s)"

definition scanFirstLine :: "string \<Rightarrow> scanned" where
  "scanFirstLine outputStr =
     (let line = takeWhile (\<lambda>c. c \<noteq> CHR 0x0A) outputStr in
      if length line \<ge> MaxScanTokenSize then NoToken (Some ''bufio.Scanner: token too long'')
      else if outputStr = [] then NoToken None
      else Token (dropCR line))"

section \<open>The probe (package system, \<^verbatim>\<open>FindmntWrapper\<close>)\<close>

datatype MountStatus = MountStatusUnknown | MountStatusMounted | MountStatusNotMounted

record FindmntResult =
  MountPoint :: string
  Status :: MountStatus
  Target :: string
  FSType :: string
  Options :: string
  Source :: string
  Error :: "error option"

record stats =
  totalCalls :: int
  successfulCalls :: int
  failedCalls :: int
  circuitBreakerTrips :: int
  retryAttempts :: int

record FindmntWrapper =
  timeout :: int
  circuitBreaker :: CircuitBreaker
  retry :: RetryConfig
  stats :: stats

text \<open>
  What one run of the external command gives back to \<^verbatim>\<open>executeFindmnt\<close>: the bytes of
  standard output, the error of \<^verbatim>\<open>cmd.Output()\<close> (nil, an \<^verbatim>\<open>*exec.ExitError\<close> with its exit
  code, or another error; each with its message), and whether \<^verbatim>\<open>cmdCtx.Err()\<close> is
  \<^verbatim>\<open>context.DeadlineExceeded\<close> when the error is examined.
\<close>

datatype exec_error = ExitError int string | OtherError string

record cmd_outcome =
  cmdOutput :: string
  cmdErr :: "exec_error option"
  deadlineExceeded :: bool

text \<open>
  The collaborators outside the repository, over a world \<open>'w\<close> that they may change:
  the monotonic clock, the \<^verbatim>\<open>select\<close> of the retry driver on its timer and on the
  caller's context (see \<open>Do_loop\<close>), the run of
  \<^verbatim>\<open>findmnt -n -o TARGET,FSTYPE,OPTIONS,SOURCE --mountpoint <mountPoint>\<close> under a timeout,
  and the \<^verbatim>\<open>%v\<close> formatting of a \<^verbatim>\<open>time.Duration\<close>.
\<close>

record 'w runtime =
  clock :: "'w \<Rightarrow> int"
  sleep :: "int \<Rightarrow> 'w \<Rightarrow> error option \<times> 'w"
  run_findmnt :: "int \<Rightarrow> string \<Rightarrow> 'w \<Rightarrow> cmd_outcome \<times> 'w"
  fmtDuration :: "int \<Rightarrow> string"

definition NewRetry :: "(RetryConfig \<Rightarrow> RetryConfig) list \<Rightarrow> RetryConfig" where
  "NewRetry opts =
     fold (\<lambda>opt c. opt c) opts
       \<lparr> MaxAttempts = 3, InitialDelay = 100 * Millisecond, MaxDelay = 30 * Second,
         Strategy = BackoffStrategyExponential, ShouldRetry = (\<lambda>err. True) \<rparr>"

definition NewFindmntWrapper :: "int \<Rightarrow> FindmntWrapper" where
  "NewFindmntWrapper tmo =
     \<lparr> timeout = tmo,
       circuitBreaker = NewCircuitBreaker
         \<lparr> Name = ''findmnt-circuit-breaker'', MaxFailures = 5, ResetTimeout = 60 * Second,
           OnStateChange = True \<rparr>,
       retry = NewRetry
         [\<lambda>c. c\<lparr> MaxAttempts := 3 \<rparr>,
          \<lambda>c. c\<lparr> InitialDelay := 100 * Millisecond \<rparr>,
          \<lambda>c. c\<lparr> MaxDelay := 5 * Second \<rparr>,
          \<lambda>c. c\<lparr> Strategy := BackoffStrategyExponential \<rparr>,
          \<lambda>c. c\<lparr> ShouldRetry := IsTransientError \<rparr>],
       stats = \<lparr> totalCalls = 0, successfulCalls = 0, failedCalls = 0,
                 circuitBreakerTrips = 0, retryAttempts = 0 \<rparr> \<rparr>"

text \<open>The assignments to \<^verbatim>\<open>result\<close> once the first line has been split into fields.\<close>

definition parseFields :: "string list \<Rightarrow> FindmntResult \<Rightarrow> FindmntResult" where
  "parseFields flds result =
     (if length flds \<ge> 1 then
        (let r1 = result\<lparr> Status := MountStatusMounted, Target := flds ! 0 \<rparr>;
             r2 = (if length flds \<ge> 2 then r1\<lparr> FSType := flds ! 1 \<rparr> else r1);
             r3 = (if length flds \<ge> 3 then r2\<lparr> Options := flds ! 2 \<rparr> else r2)
         in if length flds \<ge> 4 then r3\<lparr> Source := Join (drop 3 flds) '' '' \<rparr> else r3)
      else result)"

text \<open>
  The closure that \<^verbatim>\<open>executeFindmnt\<close> hands to the retry driver: one run of the command
  and the classification of its outcome. It counts itself in \<^verbatim>\<open>stats.retryAttempts\<close> and
  writes into the \<^verbatim>\<open>result\<close> of the enclosing \<^verbatim>\<open>CheckMountPoint\<close>; its environment is the
  statistics, that result and the world.
\<close>

definition findmntOnce ::
  "'w runtime \<Rightarrow> int \<Rightarrow> string \<Rightarrow> (stats \<times> FindmntResult \<times> 'w) operation" where
  "findmntOnce rt tmo mountPoint = (\<lambda>(st, result, w).
     let st1 = st\<lparr> retryAttempts := retryAttempts st + 1 \<rparr> in
     case run_findmnt rt tmo mountPoint w of (out, w1) \<Rightarrow>
       (case cmdErr out of
          Some xerr \<Rightarrow>
            if deadlineExceeded out
            then (Some (''findmnt command timed out after '' @ fmtDuration rt tmo), st1, result, w1)
            else (case xerr of
                    ExitError code msg \<Rightarrow>
                      if code = 1 then (None, st1, result\<lparr> Status := MountStatusNotMounted \<rparr>, w1)
                      else (Some (''findmnt command failed: '' @ msg), st1, result, w1)
                  | OtherError msg \<Rightarrow> (Some (''findmnt command failed: '' @ msg), st1, result, w1))
        | None \<Rightarrow>
            if length (TrimSpace (cmdOutput out)) = 0
            then (None, st1, result\<lparr> Status := MountStatusNotMounted \<rparr>, w1)
            else (case scanFirstLine (cmdOutput out) of
                    Token tok \<Rightarrow>
                      (let line = TrimSpace tok in
                       if line \<noteq> [] then (None, st1, parseFields (Split line CHR 0x20) result, w1)
                       else (None, st1, result, w1))
                  | NoToken (Some serr) \<Rightarrow>
                      (Some (''failed to parse findmnt output: '' @ serr), st1, result, w1)
                  | NoToken None \<Rightarrow> (None, st1, result, w1))))"

definition executeFindmnt ::
  "'w runtime \<Rightarrow> FindmntWrapper \<Rightarrow> string \<Rightarrow> (stats \<times> FindmntResult \<times> 'w) operation" where
  "executeFindmnt rt f mountPoint =
     Do (retry f)
        (\<lambda>attempt (st, result, w). case sleep rt attempt w of (cause, w1) \<Rightarrow> (cause, st, result, w1))
        (findmntOnce rt (timeout f) mountPoint)"

definition circuitOpenError :: error where
  "circuitOpenError = ''circuit breaker is open - findmnt commands are temporarily disabled''"

definition CheckMountPoint ::
  "'w runtime \<Rightarrow> FindmntWrapper \<Rightarrow> string \<Rightarrow> 'w \<Rightarrow> FindmntResult \<times> FindmntWrapper \<times> 'w" where
  "CheckMountPoint rt f mountPoint w =
     (let st0 = (stats f)\<lparr> totalCalls := totalCalls (stats f) + 1 \<rparr>;
          result = \<lparr> MountPoint = mountPoint, Status = MountStatusUnknown, Target = [],
                     FSType = [], Options = [], Source = [], Error = None \<rparr>
      in if IsOpen (circuitBreaker f)
         then (result\<lparr> Error := Some circuitOpenError, Status := MountStatusUnknown \<rparr>,
               f\<lparr> stats := st0\<lparr> failedCalls := failedCalls st0 + 1 \<rparr> \<rparr>, w)
         else (case Execute (\<lambda>(st, r, w'). clock rt w') (circuitBreaker f)
                      (executeFindmnt rt f mountPoint) (st0, result, w) of
                 (Some err, cb, st1, result1, w1) \<Rightarrow>
                   (if err = ''circuit breaker is open''
                    then result1\<lparr> Error := Some circuitOpenError, Status := MountStatusUnknown \<rparr>
                    else result1\<lparr> Error := Some err \<rparr>,
                    f\<lparr> circuitBreaker := cb, stats := st1\<lparr> failedCalls := failedCalls st1 + 1 \<rparr> \<rparr>,
                    w1)
               | (None, cb, st1, result1, w1) \<Rightarrow>
                   (result1,
                    f\<lparr> circuitBreaker := cb,
                       stats := st1\<lparr> successfulCalls := successfulCalls st1 + 1 \<rparr> \<rparr>,
                    w1)))"




section \<open>The collector (package metrics, \<^verbatim>\<open>Collector\<close>)\<close>

record Config =
  MountPoints :: "string list"
  Interval :: int

record Collector =
  config :: Config
  findmnt :: FindmntWrapper






section \<open>Scenarios\<close>

text \<open>
  A world for running the model on concrete inputs: the clock, and counters of the
  invocations of the operation under test and of the waits of the retry driver.
\<close>

record world =
  now :: int
  calls :: nat
  waits :: nat

definition at_time :: "int \<Rightarrow> world" where
  "at_time t = \<lparr> now = t, calls = 0, waits = 0 \<rparr>"

text \<open>
  An operation given by the outcomes of its successive invocations, counting them as
  the tests do with \<^verbatim>\<open>calls++\<close>; and a wait given by the outcomes of the successive waits.
\<close>

definition scripted :: "(nat \<Rightarrow> error option) \<Rightarrow> world operation" where
  "scripted outcome w = (outcome (calls w), w\<lparr> calls := calls w + 1 \<rparr>)"

definition scripted_wait :: "(nat \<Rightarrow> error option) \<Rightarrow> int \<Rightarrow> world operation" where
  "scripted_wait ctx attempt w = (ctx (waits w), w\<lparr> waits := waits w + 1 \<rparr>)"

definition failing_op :: "world operation" where
  "failing_op = scripted (\<lambda>i. Some ''test error'')"

definition succeeding_op :: "world operation" where
  "succeeding_op = scripted (\<lambda>i. None)"

definition test_config :: CircuitBreakerConfig where
  "test_config =
     \<lparr> Name = ''test-cb'', MaxFailures = 2, ResetTimeout = 50 * Millisecond, OnStateChange = True \<rparr>"

text \<open>The breaker of the tests after two failing calls at time 0.\<close>

definition opened_breaker :: CircuitBreaker where
  "opened_breaker =
     fst (ExecuteAll now (NewCircuitBreaker test_config) [failing_op, failing_op] (at_time 0))"

text \<open>
  A runtime over that world: every run of the command takes a millisecond and gives
  the outcome scripted for the mount point, every wait completes after a tenth of a
  second unless \<open>ctx\<close> says the context is done. Durations are printed in whole
  milliseconds, as \<^verbatim>\<open>%v\<close> prints those below a second.
\<close>

definition scripted_runtime ::
  "(string \<Rightarrow> cmd_outcome) \<Rightarrow> (nat \<Rightarrow> error option) \<Rightarrow> world runtime" where
  "scripted_runtime script ctx =
     \<lparr> clock = now,
       sleep = (\<lambda>attempt w. (ctx (waits w), w\<lparr> now := now w + 100 * Millisecond, waits := waits w + 1 \<rparr>)),
       run_findmnt = (\<lambda>tmo mountPoint w.
          (script mountPoint, w\<lparr> now := now w + Millisecond, calls := calls w + 1 \<rparr>)),
       fmtDuration = (\<lambda>d. itoa (d div Millisecond) @ ''ms'') \<rparr>"

text \<open>
  The transitions that the specification of the breaker calls legal:
  Closed to Open, Open to HalfOpen, HalfOpen to Closed, HalfOpen to Open.
\<close>

definition legal_transition :: "State \<Rightarrow> State \<Rightarrow> bool" where
  "legal_transition from to =
     ((from = StateClosed \<and> to = StateOpen) \<or> (from = StateOpen \<and> to = StateHalfOpen) \<or>
      (from = StateHalfOpen \<and> to = StateClosed) \<or> (from = StateHalfOpen \<and> to = StateOpen))"

text \<open>
  Retry configurations, operations and contexts of the tests of the retry driver: three
  attempts; an error that the predicate refuses to retry; an operation that fails once
  and then succeeds; a context that is done, and one that is not.
\<close>

definition retry3 :: RetryConfig where
  "retry3 = NewRetry [\<lambda>c. c\<lparr> MaxAttempts := 3 \<rparr>]"

definition picky_retry :: RetryConfig where
  "picky_retry = NewRetry [\<lambda>c. c\<lparr> MaxAttempts := 3 \<rparr>, \<lambda>c. c\<lparr> ShouldRetry := (\<lambda>err. err \<noteq> ''non-retryable'') \<rparr>]"

definition flaky_outcome :: "nat \<Rightarrow> error option" where
  "flaky_outcome i = (if i < 1 then Some ''temporary failure'' else None)"

definition fatal_outcome :: "nat \<Rightarrow> error option" where
  "fatal_outcome i = Some ''non-retryable''"

definition cancelled_ctx :: "nat \<Rightarrow> error option" where
  "cancelled_ctx j = Some ''context canceled''"

definition live_ctx :: "nat \<Rightarrow> error option" where
  "live_ctx j = None"

text \<open>
  Wrappers and command outcomes for running the probe: a fresh wrapper with a timeout of
  one millisecond; the same wrapper once its breaker has been opened; a command that
  exits with code 1 although its deadline has passed.
\<close>

definition fresh_wrapper :: FindmntWrapper where
  "fresh_wrapper = NewFindmntWrapper Millisecond"


definition not_found :: "string \<Rightarrow> cmd_outcome" where
  "not_found mountPoint =
     \<lparr> cmdOutput = [], cmdErr = Some (ExitError 1 ''exit status 1''), deadlineExceeded = False \<rparr>"

definition not_found_late :: "string \<Rightarrow> cmd_outcome" where
  "not_found_late mountPoint =
     \<lparr> cmdOutput = [], cmdErr = Some (ExitError 1 ''exit status 1''), deadlineExceeded = True \<rparr>"







section \<open>Properties of the circuit breaker\<close>

lemmas cb_defs = Execute_def allowRequest_def recordResult_def onSuccess_def onFailure_def
  setState_def Since_def NewCircuitBreaker_def Reset_def

lemma opened_breaker_eq: "opened_breaker =
  \<lparr> name = ''test-cb'', maxFailures = 2, resetTimeout = 50000000, state = StateOpen, failures = 2,
    lastFailTime = Some 0, onStateChange = True, notified = [(StateClosed, StateOpen)] \<rparr>"
  by (simp add: opened_breaker_def test_config_def failing_op_def scripted_def at_time_def cb_defs
      Millisecond_def Let_def)

lemma ExecuteAll_test: "ExecuteAll now (NewCircuitBreaker test_config) [failing_op, failing_op] (at_time 0)
   = (opened_breaker, \<lparr> now = 0, calls = 2, waits = 0 \<rparr>)"
  by (simp add: opened_breaker_def test_config_def failing_op_def scripted_def at_time_def cb_defs
      Millisecond_def Let_def)

text \<open>
  C1. Claimed: after the breaker has been Open for at least \<open>resetTimeout\<close>, the next
  \<^verbatim>\<open>Execute\<close> invokes the operation exactly once, and if it succeeds the state becomes
  Closed with a failure counter of 0. The code, run on the scenario of its own test
  \<^verbatim>\<open>TestCircuitBreaker_ResetTimeout\<close> (threshold 2, reset timeout 50ms, two failures at
  time 0, one successful call at 100ms): the operation is invoked once and the counter
  is 0, but \<^verbatim>\<open>onSuccess\<close> moves the breaker from Open to HalfOpen and stops there, so the
  breaker is not Closed after the call.
\<close>

theorem Execute_after_resetTimeout_success_is_half_open:
  "IsOpen opened_breaker \<and>
   Since (now (at_time (100 * Millisecond))) (lastFailTime opened_breaker) \<ge> resetTimeout opened_breaker \<and>
   Execute now opened_breaker succeeding_op (at_time (100 * Millisecond)) =
     (None,
      opened_breaker\<lparr> state := StateHalfOpen, failures := 0,
                       notified := [(StateClosed, StateOpen), (StateOpen, StateHalfOpen)] \<rparr>,
      \<lparr> now = 100 * Millisecond, calls = 1, waits = 0 \<rparr>) \<and>
   \<not> IsClosed (fst (snd (Execute now opened_breaker succeeding_op (at_time (100 * Millisecond)))))"
  by (simp add: opened_breaker_eq succeeding_op_def scripted_def at_time_def cb_defs
      Millisecond_def Let_def IsOpen_def IsClosed_def)

text \<open>
  C4, as claimed: every state change through \<^verbatim>\<open>Execute\<close> and \<^verbatim>\<open>Reset\<close> calls is one of the four
  legal transitions. It fails for \<^verbatim>\<open>Reset\<close> on an Open breaker (here the breaker opened
  by two failing calls), which goes from Open to Closed.
\<close>

theorem Reset_open_breaker_counterexample:
  "state opened_breaker = StateOpen \<and> state (Reset opened_breaker) = StateClosed \<and>
   state (Reset opened_breaker) \<noteq> state opened_breaker \<and>
   \<not> legal_transition (state opened_breaker) (state (Reset opened_breaker))"
  by (simp add: opened_breaker_eq cb_defs legal_transition_def)

text \<open>
  C4, amended: for every breaker, hence for every breaker reached by \<^verbatim>\<open>Execute\<close> and
  \<^verbatim>\<open>Reset\<close> calls, an \<^verbatim>\<open>Execute\<close> call leaves the state as it is or makes one of the four
  legal transitions; when it enters Open the last-failure time is the clock reading of
  that call; when it enters Closed the failure counter is 0. \<^verbatim>\<open>Reset\<close> forces Closed from
  any state (so also from Open), with the counter 0 and the last-failure time cleared.
\<close>

theorem breaker_transitions:
  assumes "Execute clk cb fn e = (err, cb', e')"
  shows "(state cb' = state cb \<or> legal_transition (state cb) (state cb')) \<and>
         (state cb' \<noteq> state cb \<and> state cb' = StateOpen \<longrightarrow> lastFailTime cb' = Some (clk e')) \<and>
         (state cb' \<noteq> state cb \<and> state cb' = StateClosed \<longrightarrow> failures cb' = 0) \<and>
         state (Reset cb) = StateClosed \<and> failures (Reset cb) = 0 \<and> lastFailTime (Reset cb) = None"
proof -
  have reset: "state (Reset cb) = StateClosed \<and> failures (Reset cb) = 0 \<and> lastFailTime (Reset cb) = None"
    by (simp add: Reset_def setState_def)
  show ?thesis
  proof (cases "allowRequest (clk e) cb")
    case False
    then have "cb' = cb" using assms by (simp add: Execute_def)
    then show ?thesis using reset by simp
  next
    case True
    obtain r e1 where fn: "fn e = (r, e1)" by fastforce
    then have cb': "cb' = recordResult (clk e') (r = None) cb" and e': "e' = e1"
      using assms True by (auto simp: Execute_def)
    show ?thesis
    proof (cases "r = None")
      case True
      then have "cb' = onSuccess (clk e') cb" using cb' by (simp add: recordResult_def)
      then show ?thesis using reset
        by (cases "state cb") (auto simp: onSuccess_def setState_def Let_def legal_transition_def)
    next
      case False
      then have "cb' = onFailure (clk e') cb" using cb' by (auto simp: recordResult_def)
      then show ?thesis using reset
        by (cases "state cb") (auto simp: onFailure_def setState_def Let_def legal_transition_def)
    qed
  qed
qed

theorem breaker_transitions_witness:
  "Execute now (NewCircuitBreaker test_config\<lparr> failures := 1 \<rparr>) failing_op (at_time 7) =
     (Some ''test error'', opened_breaker\<lparr> lastFailTime := Some 7 \<rparr>, \<lparr> now = 7, calls = 1, waits = 0 \<rparr>) \<and>
   state (opened_breaker\<lparr> lastFailTime := Some 7 \<rparr>) \<noteq> state (NewCircuitBreaker test_config\<lparr> failures := 1 \<rparr>) \<and>
   state (opened_breaker\<lparr> lastFailTime := Some 7 \<rparr>) = StateOpen \<and>
   legal_transition StateClosed StateOpen \<and>
   lastFailTime (opened_breaker\<lparr> lastFailTime := Some 7 \<rparr>) = Some 7 \<and>
   state (Reset (NewCircuitBreaker test_config\<lparr> failures := 1 \<rparr>)) = StateClosed \<and>
   failures (Reset (NewCircuitBreaker test_config\<lparr> failures := 1 \<rparr>)) = 0"
proof -
  have ex: "Execute now (NewCircuitBreaker test_config\<lparr> failures := 1 \<rparr>) failing_op (at_time 7) =
     (Some ''test error'', opened_breaker\<lparr> lastFailTime := Some 7 \<rparr>, \<lparr> now = 7, calls = 1, waits = 0 \<rparr>)"
    by (simp add: opened_breaker_eq test_config_def failing_op_def scripted_def at_time_def cb_defs
        Millisecond_def Let_def)
  show ?thesis
    using ex breaker_transitions [OF ex]
    by (simp add: opened_breaker_eq NewCircuitBreaker_def legal_transition_def)
qed

lemma Execute_closed_failure:
  assumes "state cb = StateClosed" "fst (fn e) \<noteq> None"
  shows "Execute clk cb fn e = (fst (fn e), onFailure (clk (snd (fn e))) cb, snd (fn e))"
  using assms by (cases "fn e") (auto simp: Execute_def allowRequest_def recordResult_def)

lemma ExecuteAll_append:
  "ExecuteAll clk cb (fns @ gns) e =
     (case ExecuteAll clk cb fns e of (cb', e') \<Rightarrow> ExecuteAll clk cb' gns e')"
  by (induction fns arbitrary: cb e) (auto split: prod.splits)

lemma invokeAll_append: "invokeAll (fns @ gns) e = invokeAll gns (invokeAll fns e)"
  by (induction fns arbitrary: e) simp_all

lemma onFailure_below_threshold:
  assumes "state cb = StateClosed" "failures cb + 1 < maxFailures cb"
  shows "onFailure t cb = cb\<lparr> failures := failures cb + 1, lastFailTime := Some t \<rparr>"
  using assms by (simp add: onFailure_def Let_def)

lemma onFailure_at_threshold:
  assumes "state cb = StateClosed" "failures cb + 1 \<ge> maxFailures cb"
  shows "onFailure t cb =
           cb\<lparr> failures := failures cb + 1, lastFailTime := Some t, state := StateOpen,
               notified := (if onStateChange cb then notified cb @ [(StateClosed, StateOpen)]
                            else notified cb) \<rparr>"
  using assms by (simp add: onFailure_def Let_def setState_def)

lemma ExecuteAll_below_threshold:
  assumes "state cb = StateClosed" "\<forall>fn \<in> set fns. \<forall>e. fst (fn e) \<noteq> None"
    "failures cb + int (length fns) < maxFailures cb"
  shows "ExecuteAll clk cb fns e =
           (if fns = [] then cb
            else cb\<lparr> failures := failures cb + int (length fns),
                     lastFailTime := Some (clk (invokeAll fns e)) \<rparr>,
            invokeAll fns e)"
  using assms
proof (induction fns arbitrary: cb e)
  case Nil
  then show ?case by simp
next
  case (Cons fn fns)
  let ?cb = "cb\<lparr> failures := failures cb + 1, lastFailTime := Some (clk (snd (fn e))) \<rparr>"
  have "onFailure (clk (snd (fn e))) cb = ?cb"
    using Cons.prems by (intro onFailure_below_threshold) auto
  then have ex: "Execute clk cb fn e = (fst (fn e), ?cb, snd (fn e))"
    using Cons.prems Execute_closed_failure [of cb fn e clk] by simp
  have ih: "ExecuteAll clk ?cb fns (snd (fn e)) =
           (if fns = [] then ?cb
            else ?cb\<lparr> failures := failures ?cb + int (length fns),
                     lastFailTime := Some (clk (invokeAll fns (snd (fn e)))) \<rparr>,
            invokeAll fns (snd (fn e)))"
    using Cons.prems by (intro Cons.IH) auto
  show ?case using ex ih by (simp add: add.assoc)
qed

text \<open>
  C3. For every threshold \<open>N \<ge> 1\<close>, from a Closed breaker with no failures and \<open>N\<close>
  operations that fail: after the first \<open>k < N\<close> \<^verbatim>\<open>Execute\<close> calls the breaker is still
  Closed with \<open>k\<close> failures counted and the \<open>k\<close> operations invoked; after exactly \<open>N\<close>
  calls \<^verbatim>\<open>IsOpen\<close> holds, the counter is \<open>N\<close>, the last-failure time is the clock reading
  of the \<open>N\<close>-th call, all \<open>N\<close> operations have been invoked and nothing else of the
  breaker has changed but the notification of Closed to Open. A further \<^verbatim>\<open>Execute\<close> call
  made while less than \<open>resetTimeout\<close> has passed since the last failure returns the
  error "circuit breaker is open", leaves the environment as it was (the operation,
  whatever it is, is not invoked) and leaves the breaker unchanged in every field.
\<close>

theorem breaker_opens_after_maxFailures:
  assumes "0 < N" "maxFailures cb = int N" "state cb = StateClosed" "failures cb = 0"
    and "length fns = N" "\<forall>fn \<in> set fns. \<forall>e. fst (fn e) \<noteq> None"
    and "ExecuteAll clk cb fns e = (cb', e')"
    and "Since (clk e2) (lastFailTime cb') < resetTimeout cb'"
  shows "(\<forall>k<N. state (fst (ExecuteAll clk cb (take k fns) e)) = StateClosed \<and>
                failures (fst (ExecuteAll clk cb (take k fns) e)) = int k \<and>
                snd (ExecuteAll clk cb (take k fns) e) = invokeAll (take k fns) e) \<and>
         IsOpen cb' \<and>
         cb' = cb\<lparr> failures := int N, lastFailTime := Some (clk e'), state := StateOpen,
                   notified := (if onStateChange cb then notified cb @ [(StateClosed, StateOpen)]
                                else notified cb) \<rparr> \<and>
         e' = invokeAll fns e \<and>
         Execute clk cb' fn e2 = (Some ''circuit breaker is open'', cb', e2)"
proof -
  have prefix: "state (fst (ExecuteAll clk cb (take k fns) e)) = StateClosed \<and>
                failures (fst (ExecuteAll clk cb (take k fns) e)) = int k \<and>
                snd (ExecuteAll clk cb (take k fns) e) = invokeAll (take k fns) e" if "k < N" for k
  proof -
    have "\<forall>fn \<in> set (take k fns). \<forall>e. fst (fn e) \<noteq> None"
      using assms(6) by (meson in_set_takeD)
    moreover have "failures cb + int (length (take k fns)) < maxFailures cb"
      using that assms(2,4,5) by simp
    ultimately have "ExecuteAll clk cb (take k fns) e =
           (if take k fns = [] then cb
            else cb\<lparr> failures := failures cb + int (length (take k fns)),
                     lastFailTime := Some (clk (invokeAll (take k fns) e)) \<rparr>,
            invokeAll (take k fns) e)"
      using assms(3) by (intro ExecuteAll_below_threshold) auto
    then show ?thesis using that assms(3,4,5) by auto
  qed
  obtain gns g where fns: "fns = gns @ [g]"
    using assms(1,5) by (cases fns rule: rev_cases) auto
  have len: "int (length gns) = int N - 1" using fns assms(5) by auto
  have gfail: "\<forall>fn \<in> set gns. \<forall>e. fst (fn e) \<noteq> None" and g: "fst (g (invokeAll gns e)) \<noteq> None"
    using assms(6) fns by auto
  define cb1 where "cb1 = (if gns = [] then cb
              else cb\<lparr> failures := failures cb + int (length gns),
                       lastFailTime := Some (clk (invokeAll gns e)) \<rparr>)"
  have r1: "ExecuteAll clk cb gns e = (cb1, invokeAll gns e)"
    unfolding cb1_def using assms(2,3,4) gfail len by (intro ExecuteAll_below_threshold) auto
  have cb1: "state cb1 = StateClosed" "failures cb1 = int N - 1" "maxFailures cb1 = int N"
    using assms(2,3,4) len by (auto simp: cb1_def)
  have ex: "Execute clk cb1 g (invokeAll gns e) =
              (fst (g (invokeAll gns e)), onFailure (clk (snd (g (invokeAll gns e)))) cb1,
               snd (g (invokeAll gns e)))"
    using cb1(1) g by (rule Execute_closed_failure)
  have last: "ExecuteAll clk cb fns e =
                (onFailure (clk (snd (g (invokeAll gns e)))) cb1, snd (g (invokeAll gns e)))"
    by (simp add: fns ExecuteAll_append r1 ex)
  have e': "e' = invokeAll fns e"
    using last assms(7) by (simp add: fns invokeAll_append)
  have "onFailure (clk e') cb1 =
           cb1\<lparr> failures := failures cb1 + 1, lastFailTime := Some (clk e'), state := StateOpen,
               notified := (if onStateChange cb1 then notified cb1 @ [(StateClosed, StateOpen)]
                            else notified cb1) \<rparr>"
    using cb1 by (intro onFailure_at_threshold) auto
  moreover have "cb' = onFailure (clk e') cb1"
    using last assms(7) e' by (simp add: fns invokeAll_append)
  ultimately have cb': "cb' = cb\<lparr> failures := int N, lastFailTime := Some (clk e'), state := StateOpen,
                   notified := (if onStateChange cb then notified cb @ [(StateClosed, StateOpen)]
                                else notified cb) \<rparr>"
    using assms(4) len by (cases "gns = []") (simp_all add: cb1_def)
  then have op: "state cb' = StateOpen" by simp
  have rej: "Execute clk cb' fn e2 = (Some ''circuit breaker is open'', cb', e2)"
    using op assms(8) by (simp add: Execute_def allowRequest_def)
  show ?thesis
    using prefix cb' e' rej op by (simp add: IsOpen_def)
qed

theorem breaker_opens_after_maxFailures_witness:
  "ExecuteAll now (NewCircuitBreaker test_config) [failing_op, failing_op] (at_time 0)
     = (opened_breaker, \<lparr> now = 0, calls = 2, waits = 0 \<rparr>) \<and>
   maxFailures (NewCircuitBreaker test_config) = 2 \<and>
   Since (now (at_time (10 * Millisecond))) (lastFailTime opened_breaker) < resetTimeout opened_breaker \<and>
   (1::nat) < 2 \<and>
   state (fst (ExecuteAll now (NewCircuitBreaker test_config) (take 1 [failing_op, failing_op]) (at_time 0)))
     = StateClosed \<and>
   failures (fst (ExecuteAll now (NewCircuitBreaker test_config) (take 1 [failing_op, failing_op]) (at_time 0)))
     = 1 \<and>
   IsOpen opened_breaker \<and> failures opened_breaker = 2 \<and>
   invokeAll [failing_op, failing_op] (at_time 0) = \<lparr> now = 0, calls = 2, waits = 0 \<rparr> \<and>
   Execute now opened_breaker succeeding_op (at_time (10 * Millisecond))
     = (Some ''circuit breaker is open'', opened_breaker, at_time (10 * Millisecond))"
proof -
  have h2: "maxFailures (NewCircuitBreaker test_config) = int 2"
    and h3: "state (NewCircuitBreaker test_config) = StateClosed"
    and h4: "failures (NewCircuitBreaker test_config) = 0"
    by (simp_all add: NewCircuitBreaker_def test_config_def)
  have h6: "\<forall>fn \<in> set [failing_op, failing_op]. \<forall>e. fst (fn e) \<noteq> None"
    by (simp add: failing_op_def scripted_def)
  have h8: "Since (now (at_time (10 * Millisecond))) (lastFailTime opened_breaker) < resetTimeout opened_breaker"
    by (simp add: opened_breaker_eq at_time_def Since_def Millisecond_def)
  note th = breaker_opens_after_maxFailures [where N = 2 and fn = succeeding_op,
      OF _ h2 h3 h4 _ h6 ExecuteAll_test h8]
  have k1: "state (fst (ExecuteAll now (NewCircuitBreaker test_config) (take 1 [failing_op, failing_op]) (at_time 0)))
     = StateClosed \<and>
   failures (fst (ExecuteAll now (NewCircuitBreaker test_config) (take 1 [failing_op, failing_op]) (at_time 0)))
     = 1"
    using th by (simp del: ExecuteAll.simps take_Suc_Cons take.simps)
  have rest: "IsOpen opened_breaker \<and>
    invokeAll [failing_op, failing_op] (at_time 0) = \<lparr> now = 0, calls = 2, waits = 0 \<rparr> \<and>
    Execute now opened_breaker succeeding_op (at_time (10 * Millisecond))
     = (Some ''circuit breaker is open'', opened_breaker, at_time (10 * Millisecond))"
    using th by (simp del: ExecuteAll.simps invokeAll.simps)
  show ?thesis
    using k1 rest ExecuteAll_test h2 h8 by (simp add: opened_breaker_eq del: ExecuteAll.simps invokeAll.simps)
qed

section \<open>Properties of the retry driver\<close>

lemma retry3_simps: "MaxAttempts retry3 = 3" "ShouldRetry retry3 err"
  by (simp_all add: retry3_def NewRetry_def)

text \<open>
  C6, as claimed: an operation that fails once with a retryable error and succeeds on
  its second invocation, under a limit of three attempts, is invoked twice and \<^verbatim>\<open>Do\<close>
  returns nil. It fails when the context is done during the wait before the second
  attempt: \<^verbatim>\<open>Do\<close> returns the error "retry cancelled" after one invocation.
\<close>

theorem Do_cancelled_counterexample:
  "MaxAttempts retry3 = 3 \<and>
   flaky_outcome 0 = Some ''temporary failure'' \<and> ShouldRetry retry3 ''temporary failure'' \<and>
   flaky_outcome 1 = None \<and>
   Do retry3 (scripted_wait cancelled_ctx) (scripted flaky_outcome) (at_time 0) =
     (Some ''retry cancelled: context canceled'', \<lparr> now = 0, calls = 1, waits = 1 \<rparr>)"
  by (simp add: retry3_simps Do_def Do_loop.simps [of _ _ _ 0] Do_loop.simps [of _ _ _ 1]
      scripted_def scripted_wait_def flaky_outcome_def cancelled_ctx_def at_time_def)

lemma Do_loop_succeeds_at_k:
  assumes "0 < k" "int k \<le> MaxAttempts cfg"
    and "\<forall>i<k - 1. \<exists>err. outcome i = Some err \<and> ShouldRetry cfg err"
    and "outcome (k - 1) = None"
    and "\<forall>j<k - 1. ctx j = None"
    and "a \<le> k - 1" "calls w = a" "waits w = a - 1"
  shows "Do_loop cfg (scripted_wait ctx) (scripted outcome) (int a) lastErr w =
           (None, w\<lparr> calls := k, waits := k - 1 \<rparr>)"
  using assms(6-8)
proof (induction "k - 1 - a" arbitrary: a w lastErr)
  case 0
  then have a: "a = k - 1" by simp
  have lt: "int a < MaxAttempts cfg" using a assms(1,2) by simp
  show ?case
  proof (cases "a = 0")
    case True
    then have "k = 1" using a assms(1) by simp
    then show ?thesis using lt True assms(4) 0
      by (subst Do_loop.simps) (simp add: scripted_def scripted_wait_def)
  next
    case False
    then have "ctx (waits w) = None" using assms(5) 0 a assms(1) by simp
    then show ?thesis using lt a assms(4) 0 False
      by (subst Do_loop.simps) (simp add: scripted_def scripted_wait_def)
  qed
next
  case (Suc n)
  then have a: "a < k - 1" by simp
  have lt: "int a < MaxAttempts cfg" and nl: "int a \<noteq> MaxAttempts cfg - 1"
    using a assms(1,2) by simp_all
  obtain err where err: "outcome a = Some err" "ShouldRetry cfg err"
    using assms(3) a by blast
  let ?w1 = "if a > 0 then w\<lparr> waits := waits w + 1 \<rparr> else w"
  let ?w2 = "?w1\<lparr> calls := calls ?w1 + 1 \<rparr>"
  have wt: "a > 0 \<Longrightarrow> ctx (waits w) = None" using assms(5) Suc.prems a by simp
  have step: "Do_loop cfg (scripted_wait ctx) (scripted outcome) (int a) lastErr w =
              Do_loop cfg (scripted_wait ctx) (scripted outcome) (int (Suc a)) (Some err) ?w2"
    using lt nl err wt Suc.prems
    by (subst Do_loop.simps) (auto simp: scripted_def scripted_wait_def add.commute)
  have "Do_loop cfg (scripted_wait ctx) (scripted outcome) (int (Suc a)) (Some err) ?w2 =
          (None, ?w2\<lparr> calls := k, waits := k - 1 \<rparr>)"
    using Suc.hyps(2) a Suc.prems by (intro Suc.hyps(1)) auto
  then show ?case using step by (cases "a > 0") auto
qed

text \<open>
  C6, amended: for every limit \<open>MaxAttempts \<ge> 1\<close> and every operation that fails with
  retryable errors on its first \<open>k - 1\<close> invocations and succeeds on invocation
  \<open>k \<le> MaxAttempts\<close>, provided the context is not done during the \<open>k - 1\<close> waits before
  those attempts, \<^verbatim>\<open>Do\<close> invokes the operation exactly \<open>k\<close> times, waits exactly \<open>k - 1\<close>
  times and returns nil.
\<close>

theorem Do_succeeds_at_attempt_k:
  assumes "0 < k" "int k \<le> MaxAttempts cfg"
    and "\<forall>i<k - 1. \<exists>err. outcome i = Some err \<and> ShouldRetry cfg err"
    and "outcome (k - 1) = None"
    and "\<forall>j<k - 1. ctx j = None"
  shows "Do cfg (scripted_wait ctx) (scripted outcome) (at_time t) =
           (None, \<lparr> now = t, calls = k, waits = k - 1 \<rparr>)"
  using Do_loop_succeeds_at_k [OF assms, of 0 "at_time t" None]
  by (simp add: Do_def at_time_def)

theorem Do_succeeds_at_attempt_k_witness:
  "int 2 \<le> MaxAttempts retry3 \<and>
   flaky_outcome 0 = Some ''temporary failure'' \<and> ShouldRetry retry3 ''temporary failure'' \<and>
   flaky_outcome 1 = None \<and> live_ctx 0 = None \<and>
   Do retry3 (scripted_wait live_ctx) (scripted flaky_outcome) (at_time 0) =
     (None, \<lparr> now = 0, calls = 2, waits = 1 \<rparr>)"
proof -
  have h2: "int 2 \<le> MaxAttempts retry3" by (simp add: retry3_simps)
  have h3: "\<forall>i<2 - 1. \<exists>err. flaky_outcome i = Some err \<and> ShouldRetry retry3 err"
    by (simp add: flaky_outcome_def retry3_simps)
  have h4: "flaky_outcome (2 - 1) = None" by (simp add: flaky_outcome_def)
  have h5: "\<forall>j<2 - 1. live_ctx j = None" by (simp add: live_ctx_def)
  have c: "flaky_outcome 0 = Some ''temporary failure'' \<and> ShouldRetry retry3 ''temporary failure'' \<and>
           flaky_outcome 1 = None \<and> live_ctx 0 = None"
    by (simp add: flaky_outcome_def retry3_simps live_ctx_def)
  show ?thesis
    using Do_succeeds_at_attempt_k [where k = 2 and t = 0, OF _ h2 h3 h4 h5] h2 c
    by simp
qed

text \<open>
  C7. For every limit \<open>MaxAttempts \<ge> 1\<close>, if every invocation of the operation returns an
  error that \<^verbatim>\<open>ShouldRetry\<close> refuses, \<^verbatim>\<open>Do\<close> invokes the operation exactly once, performs
  no wait (whatever the wait would do, the result does not depend on it and the wait
  counter stays 0) and returns at once the error that wraps that failure.
\<close>

theorem Do_non_retryable_once:
  assumes "1 \<le> MaxAttempts cfg"
    and "\<forall>i. \<exists>err. outcome i = Some err \<and> \<not> ShouldRetry cfg err"
  shows "outcome 0 \<noteq> None \<and>
         Do cfg wait (scripted outcome) (at_time t) =
           (Some (maxAttemptsError cfg (outcome 0)), \<lparr> now = t, calls = 1, waits = 0 \<rparr>)"
proof -
  obtain err where err: "outcome 0 = Some err" "\<not> ShouldRetry cfg err"
    using assms(2) by blast
  then show ?thesis using assms(1)
    by (simp add: Do_def Do_loop.simps [of _ _ _ 0] scripted_def at_time_def)
qed

lemma itoa_3: "itoa 3 = ''3''"
  by code_simp

theorem Do_non_retryable_once_witness:
  "1 \<le> MaxAttempts picky_retry \<and> fatal_outcome 0 = Some ''non-retryable'' \<and>
   \<not> ShouldRetry picky_retry ''non-retryable'' \<and>
   Do picky_retry (scripted_wait live_ctx) (scripted fatal_outcome) (at_time 0) =
     (Some ''max retry attempts (3) exceeded, last error: non-retryable'',
      \<lparr> now = 0, calls = 1, waits = 0 \<rparr>)"
proof -
  have h1: "1 \<le> MaxAttempts picky_retry" by (simp add: picky_retry_def NewRetry_def)
  have h2: "\<forall>i. \<exists>err. fatal_outcome i = Some err \<and> \<not> ShouldRetry picky_retry err"
    by (simp add: fatal_outcome_def picky_retry_def NewRetry_def)
  have m: "maxAttemptsError picky_retry (Some ''non-retryable'') =
             ''max retry attempts (3) exceeded, last error: non-retryable''"
    by (simp add: maxAttemptsError_def picky_retry_def NewRetry_def itoa_3)
  have c: "fatal_outcome 0 = Some ''non-retryable'' \<and> \<not> ShouldRetry picky_retry ''non-retryable''"
    by (simp add: fatal_outcome_def picky_retry_def NewRetry_def)
  show ?thesis
    using Do_non_retryable_once [OF h1 h2, of "scripted_wait live_ctx" 0] h1 m c
    by simp
qed

section \<open>Properties of the probe\<close>






lemma findmntOnce_not_found:
  assumes "run_findmnt rt tmo mp w = (out, w1)" "cmdErr out = Some (ExitError 1 msg)"
    "\<not> deadlineExceeded out"
  shows "findmntOnce rt tmo mp (st, r, w) =
           (None, st\<lparr> retryAttempts := retryAttempts st + 1 \<rparr>, r\<lparr> Status := MountStatusNotMounted \<rparr>, w1)"
  using assms by (simp add: findmntOnce_def Let_def)

lemma executeFindmnt_first_success:
  assumes "1 \<le> MaxAttempts (retry f)" "findmntOnce rt (timeout f) mp e = (None, e')"
  shows "executeFindmnt rt f mp e = (None, e')"
  using assms by (simp add: executeFindmnt_def Do_def Do_loop.simps [of _ _ _ 0])

lemma CheckMountPoint_first_success:
  assumes "\<not> IsOpen (circuitBreaker f)" "1 \<le> MaxAttempts (retry f)"
    and "findmntOnce rt (timeout f) mp
           ((stats f)\<lparr> totalCalls := totalCalls (stats f) + 1 \<rparr>,
            \<lparr> MountPoint = mp, Status = MountStatusUnknown, Target = [], FSType = [],
              Options = [], Source = [], Error = None \<rparr>, w) = (None, st1, r1, w1)"
  shows "CheckMountPoint rt f mp w =
           (r1,
            f\<lparr> circuitBreaker := onSuccess (clock rt w1) (circuitBreaker f),
               stats := st1\<lparr> successfulCalls := successfulCalls st1 + 1 \<rparr> \<rparr>,
            w1)"
proof -
  have allow: "allowRequest t (circuitBreaker f)" for t
    using assms(1) by (cases "state (circuitBreaker f)") (simp_all add: allowRequest_def IsOpen_def)
  show ?thesis
    using assms(1) allow executeFindmnt_first_success [OF assms(2,3)]
    by (simp add: CheckMountPoint_def Let_def Execute_def recordResult_def)
qed

lemma onSuccess_not_open:
  assumes "state cb \<noteq> StateOpen"
  shows "failures (onSuccess t cb) = 0 \<and> state (onSuccess t cb) = StateClosed"
  using assms by (cases "state cb") (simp_all add: onSuccess_def setState_def Let_def)

lemma timed_out_not_transient: "\<not> IsTransientError ''findmnt command timed out after 1ms''"
  by code_simp

lemma itoa_1: "itoa (Millisecond div Millisecond) = ''1''"
  by code_simp

lemma not_found_late_once:
  "findmntOnce (scripted_runtime not_found_late live_ctx) Millisecond ''/nonexistent'' (st, r, at_time 0) =
     (Some ''findmnt command timed out after 1ms'', st\<lparr> retryAttempts := retryAttempts st + 1 \<rparr>, r,
      \<lparr> now = Millisecond, calls = 1, waits = 0 \<rparr>)"
  by (simp add: findmntOnce_def scripted_runtime_def not_found_late_def at_time_def Let_def itoa_1)

lemma not_found_late_execute:
  "executeFindmnt (scripted_runtime not_found_late live_ctx) fresh_wrapper ''/nonexistent'' (st, r, at_time 0) =
     (Some ''max retry attempts (3) exceeded, last error: findmnt command timed out after 1ms'',
      st\<lparr> retryAttempts := retryAttempts st + 1 \<rparr>, r, \<lparr> now = Millisecond, calls = 1, waits = 0 \<rparr>)"
  by (simp add: executeFindmnt_def Do_def Do_loop.simps [of _ _ _ 0] fresh_wrapper_def
      NewFindmntWrapper_def NewRetry_def not_found_late_once timed_out_not_transient
      maxAttemptsError_def itoa_3)

text \<open>
  C8, as claimed: a command that exits with code 1 gives NotMounted without an error and
  without a failure recorded. It fails when the deadline of the command has passed by
  the time its error is examined: \<^verbatim>\<open>executeFindmnt\<close> tests the deadline before the exit
  code and reports a timeout, which the breaker records as a failure.
\<close>

theorem CheckMountPoint_not_found_after_deadline_counterexample:
  "\<not> IsOpen (circuitBreaker fresh_wrapper) \<and>
   cmdErr (not_found_late ''/nonexistent'') = Some (ExitError 1 ''exit status 1'') \<and>
   fst (CheckMountPoint (scripted_runtime not_found_late live_ctx) fresh_wrapper ''/nonexistent'' (at_time 0)) =
     \<lparr> MountPoint = ''/nonexistent'', Status = MountStatusUnknown, Target = [], FSType = [],
       Options = [], Source = [],
       Error = Some ''max retry attempts (3) exceeded, last error: findmnt command timed out after 1ms'' \<rparr> \<and>
   failures (circuitBreaker fresh_wrapper) = 0 \<and>
   failures (circuitBreaker (fst (snd (CheckMountPoint (scripted_runtime not_found_late live_ctx)
      fresh_wrapper ''/nonexistent'' (at_time 0))))) = 1"
  by (simp add: CheckMountPoint_def Let_def Execute_def not_found_late_execute not_found_late_def
      IsOpen_def allowRequest_def recordResult_def onFailure_def setState_def
      fresh_wrapper_def [THEN arg_cong, of circuitBreaker] fresh_wrapper_def [THEN arg_cong, of stats]
      NewFindmntWrapper_def NewCircuitBreaker_def)

text \<open>
  C8, amended: when \<^verbatim>\<open>CheckMountPoint\<close> runs the command (the breaker is not Open and the
  retry policy allows an attempt) and the command exits with code 1 while its deadline
  has not been exceeded, the result has status NotMounted and no error, the failure
  counter of the breaker is 0 after the call and the breaker is Closed, and the command
  has been run exactly once: \<^verbatim>\<open>retryAttempts\<close> grows by one and the world is the one that
  this single run left.
\<close>

theorem CheckMountPoint_target_not_found:
  assumes "\<not> IsOpen (circuitBreaker f)" "1 \<le> MaxAttempts (retry f)"
    and "run_findmnt rt (timeout f) mp w = (out, w1)"
    and "cmdErr out = Some (ExitError 1 msg)" "\<not> deadlineExceeded out"
    and "CheckMountPoint rt f mp w = (r, f', w')"
  shows "r = \<lparr> MountPoint = mp, Status = MountStatusNotMounted, Target = [], FSType = [],
              Options = [], Source = [], Error = None \<rparr> \<and>
         failures (circuitBreaker f') = 0 \<and> IsClosed (circuitBreaker f') \<and>
         retryAttempts (stats f') = retryAttempts (stats f) + 1 \<and>
         failedCalls (stats f') = failedCalls (stats f) \<and> w' = w1"
proof -
  note once = findmntOnce_not_found [OF assms(3,4,5)]
  note check = CheckMountPoint_first_success [OF assms(1,2) once]
  have "state (circuitBreaker f) \<noteq> StateOpen" using assms(1) by (simp add: IsOpen_def)
  then show ?thesis
    using assms(6) onSuccess_not_open [of "circuitBreaker f" "clock rt w1"]
    by (auto simp: check IsClosed_def)
qed

lemma not_found_check:
  "CheckMountPoint (scripted_runtime not_found live_ctx) fresh_wrapper ''/nonexistent'' (at_time 0) =
     (\<lparr> MountPoint = ''/nonexistent'', Status = MountStatusNotMounted, Target = [], FSType = [],
              Options = [], Source = [], Error = None \<rparr>,
      fresh_wrapper\<lparr> stats := (stats fresh_wrapper)\<lparr> totalCalls := 1, retryAttempts := 1,
                                                   successfulCalls := 1 \<rparr> \<rparr>,
      \<lparr> now = Millisecond, calls = 1, waits = 0 \<rparr>)"
proof -
  have h1: "\<not> IsOpen (circuitBreaker fresh_wrapper)"
    and h2: "1 \<le> MaxAttempts (retry fresh_wrapper)"
    by (simp_all add: fresh_wrapper_def NewFindmntWrapper_def NewCircuitBreaker_def IsOpen_def NewRetry_def)
  have once: "findmntOnce (scripted_runtime not_found live_ctx) (timeout fresh_wrapper) ''/nonexistent''
           ((stats fresh_wrapper)\<lparr> totalCalls := totalCalls (stats fresh_wrapper) + 1 \<rparr>,
            \<lparr> MountPoint = ''/nonexistent'', Status = MountStatusUnknown, Target = [], FSType = [],
              Options = [], Source = [], Error = None \<rparr>, at_time 0) =
           (None, (stats fresh_wrapper)\<lparr> totalCalls := 1, retryAttempts := 1 \<rparr>,
            \<lparr> MountPoint = ''/nonexistent'', Status = MountStatusNotMounted, Target = [], FSType = [],
              Options = [], Source = [], Error = None \<rparr>, \<lparr> now = Millisecond, calls = 1, waits = 0 \<rparr>)"
    by (simp add: findmntOnce_def scripted_runtime_def not_found_def at_time_def Let_def
        fresh_wrapper_def NewFindmntWrapper_def)
  show ?thesis
    unfolding CheckMountPoint_first_success [OF h1 h2 once]
    by (simp add: fresh_wrapper_def NewFindmntWrapper_def NewCircuitBreaker_def onSuccess_def Let_def)
qed

theorem CheckMountPoint_target_not_found_witness:
  "\<not> IsOpen (circuitBreaker fresh_wrapper) \<and> 1 \<le> MaxAttempts (retry fresh_wrapper) \<and>
   cmdErr (not_found ''/nonexistent'') = Some (ExitError 1 ''exit status 1'') \<and>
   \<not> deadlineExceeded (not_found ''/nonexistent'') \<and>
   fst (CheckMountPoint (scripted_runtime not_found live_ctx) fresh_wrapper ''/nonexistent'' (at_time 0)) =
     \<lparr> MountPoint = ''/nonexistent'', Status = MountStatusNotMounted, Target = [], FSType = [],
       Options = [], Source = [], Error = None \<rparr> \<and>
   failures (circuitBreaker (fst (snd (CheckMountPoint (scripted_runtime not_found live_ctx)
      fresh_wrapper ''/nonexistent'' (at_time 0))))) = 0 \<and>
   calls (snd (snd (CheckMountPoint (scripted_runtime not_found live_ctx)
      fresh_wrapper ''/nonexistent'' (at_time 0)))) = 1"
proof -
  have h1: "\<not> IsOpen (circuitBreaker fresh_wrapper)"
    and h2: "1 \<le> MaxAttempts (retry fresh_wrapper)"
    by (simp_all add: fresh_wrapper_def NewFindmntWrapper_def NewCircuitBreaker_def IsOpen_def NewRetry_def)
  have h3: "run_findmnt (scripted_runtime not_found live_ctx) (timeout fresh_wrapper) ''/nonexistent'' (at_time 0)
              = (not_found ''/nonexistent'', \<lparr> now = Millisecond, calls = 1, waits = 0 \<rparr>)"
    by (simp add: scripted_runtime_def at_time_def)
  have h4: "cmdErr (not_found ''/nonexistent'') = Some (ExitError 1 ''exit status 1'')"
    and h5: "\<not> deadlineExceeded (not_found ''/nonexistent'')"
    by (simp_all add: not_found_def)
  show ?thesis
    using CheckMountPoint_target_not_found [OF h1 h2 h3 h4 h5 not_found_check] h1 h2 h4 h5
    by (simp add: not_found_check)
qed

section \<open>Properties of the collector\<close>










end
